theory Spec2Isabelle
  imports Complex_Main
begin

section \<open>Numbers\<close>

text \<open>
  Every quantity of the simulator is a JavaScript \<open>number\<close>. The model keeps the one
  distinction the program can observe without rounding: a number is either finite, and
  then it is read as the real it denotes (\<open>Fin r\<close>), or it is one of \<open>NaN\<close>, \<open>Infinity\<close>
  and \<open>-Infinity\<close>, which are not told apart (\<open>NonFinite\<close>). Arithmetic on finite numbers is
  exact: the rounding of IEEE doubles and the overflow of a finite result to \<open>Infinity\<close>
  are outside the model. A statement below that gives the finite value of a result
  therefore describes the doubles of the source up to rounding, and as long as no
  intermediate result overflows.

  The operators \<open>+\<close>, \<open>-\<close>, \<open>*\<close> and \<open>Math.sin\<close> return \<open>NaN\<close> or an infinity whenever
  an operand is \<open>NaN\<close> or an infinity, so \<open>NonFinite\<close> is absorbing for them.
\<close>

datatype number = Fin real | NonFinite

instantiation number :: "{comm_semiring, minus, uminus}"
begin

definition plus_number_def:
  "a + b = (case a of Fin x \<Rightarrow> (case b of Fin y \<Rightarrow> Fin (x + y) | NonFinite \<Rightarrow> NonFinite)
                    | NonFinite \<Rightarrow> NonFinite)"

definition minus_number_def:
  "a - b = (case a of Fin x \<Rightarrow> (case b of Fin y \<Rightarrow> Fin (x - y) | NonFinite \<Rightarrow> NonFinite)
                    | NonFinite \<Rightarrow> NonFinite)"

definition uminus_number_def:
  "- a = (case a of Fin x \<Rightarrow> Fin (- x) | NonFinite \<Rightarrow> NonFinite)"

definition times_number_def:
  "a * b = (case a of Fin x \<Rightarrow> (case b of Fin y \<Rightarrow> Fin (x * y) | NonFinite \<Rightarrow> NonFinite)
                    | NonFinite \<Rightarrow> NonFinite)"

instance
proof
  fix a b c :: number
  show "a + b + c = a + (b + c)"
    by (cases a; cases b; cases c) (simp_all add: plus_number_def)
  show "a + b = b + a"
    by (cases a; cases b) (simp_all add: plus_number_def)
  show "a * b * c = a * (b * c)"
    by (cases a; cases b; cases c) (simp_all add: times_number_def)
  show "a * b = b * a"
    by (cases a; cases b) (simp_all add: times_number_def)
  show "(a + b) * c = a * c + b * c"
    by (cases a; cases b; cases c) (simp_all add: plus_number_def times_number_def distrib_right)
qed

end

text \<open>
  \<open>a / m\<close> for a divisor \<open>m\<close> that is a finite number. JavaScript does not raise on a zero
  divisor: \<open>0 / 0\<close> is \<open>NaN\<close> and \<open>a / 0\<close> is an infinity for every other \<open>a\<close>, and
  \<open>NaN\<close> and the infinities divided by a finite number stay \<open>NaN\<close> or infinite.
\<close>

fun js_div :: "number \<Rightarrow> real \<Rightarrow> number" where
  "js_div (Fin x) m = (if m = 0 then NonFinite else Fin (x / m))"
| "js_div NonFinite m = NonFinite"

text \<open>\<open>Math.sin\<close>: the sine of a finite number, \<open>NaN\<close> otherwise.\<close>

fun Math_sin :: "number \<Rightarrow> number" where
  "Math_sin (Fin x) = Fin (sin x)"
| "Math_sin NonFinite = NonFinite"

text \<open>\<open>Number.isFinite\<close>.\<close>

fun isFinite :: "number \<Rightarrow> bool" where
  "isFinite (Fin x) = True"
| "isFinite NonFinite = False"


section \<open>Data model (types.ts, constants.ts)\<close>

text \<open>
  The parameters are finite numbers, hence reals: the two masses are the only divisors of
  the program, and a quotient by \<open>NaN\<close> or an infinity is the one operation for which
  \<open>NonFinite\<close> would not be absorbing. The components of a state and of a derivative are
  numbers, since the program can compute non-finite ones.
\<close>

record SystemParams =
  m1 :: real
  k1 :: real
  b1 :: real
  m2 :: real
  k2 :: real
  b2 :: real
  forceAmplitude :: real
  forceFrequency :: real

record SimulationState =
  t :: number
  x1 :: number
  v1 :: number
  x2 :: number
  v2 :: number

record Derivative =
  dx1 :: number
  dv1 :: number
  dx2 :: number
  dv2 :: number

definition DEFAULT_PARAMS :: SystemParams where
  "DEFAULT_PARAMS =
     \<lparr>m1 = 50, k1 = 2000, b1 = 10, m2 = 5, k2 = 200, b2 = 15,
      forceAmplitude = 50, forceFrequency = 1\<rparr>"

definition PHYSICS_DT :: real where
  "PHYSICS_DT = 1 / 100"

text \<open>The state the application starts from and resets to.\<close>

definition initialState :: SimulationState where
  "initialState = \<lparr>t = Fin 0, x1 = Fin 0, v1 = Fin 0, x2 = Fin 0, v2 = Fin 0\<rparr>"

definition finiteState :: "SimulationState \<Rightarrow> bool" where
  "finiteState s =
     (isFinite (t s) \<and> isFinite (x1 s) \<and> isFinite (v1 s) \<and> isFinite (x2 s) \<and> isFinite (v2 s))"


section \<open>The physics engine (services/physicsEngine.ts)\<close>

subsection \<open>The constants of \<open>evaluate\<close>\<close>

text \<open>
  The local constants of \<open>evaluate\<close>, each as a function of the trial state it is computed
  from. \<open>tm\<close> is the parameter \<open>t\<close> of \<open>evaluate\<close>.
\<close>

definition Force :: "SystemParams \<Rightarrow> number \<Rightarrow> number" where
  "Force params tm =
     Fin (forceAmplitude params) * Math_sin (Fin 2 * Fin pi * Fin (forceFrequency params) * tm)"

definition springForce2 :: "SystemParams \<Rightarrow> number \<Rightarrow> number \<Rightarrow> number" where
  "springForce2 params x1' x2' = Fin (k2 params) * (x2' - x1')"

definition dampingForce2 :: "SystemParams \<Rightarrow> number \<Rightarrow> number \<Rightarrow> number" where
  "dampingForce2 params v1' v2' = Fin (b2 params) * (v2' - v1')"

definition F_net_1 ::
  "SystemParams \<Rightarrow> number \<Rightarrow> number \<Rightarrow> number \<Rightarrow> number \<Rightarrow> number \<Rightarrow> number" where
  "F_net_1 params x1' v1' x2' v2' tm =
     - Fin (k1 params) * x1' - Fin (b1 params) * v1'
       + springForce2 params x1' x2' + dampingForce2 params v1' v2' + Force params tm"

definition F_net_2 :: "SystemParams \<Rightarrow> number \<Rightarrow> number \<Rightarrow> number \<Rightarrow> number \<Rightarrow> number" where
  "F_net_2 params x1' v1' x2' v2' =
     - springForce2 params x1' x2' - dampingForce2 params v1' v2'"

subsection \<open>\<open>evaluate\<close> and \<open>integrateRK4\<close>\<close>

definition evaluate ::
  "SimulationState \<Rightarrow> number \<Rightarrow> real \<Rightarrow> Derivative \<Rightarrow> SystemParams \<Rightarrow> Derivative" where
  "evaluate state tm dt d params =
     (let x1' = x1 state + dx1 d * Fin dt;
          v1' = v1 state + dv1 d * Fin dt;
          x2' = x2 state + dx2 d * Fin dt;
          v2' = v2 state + dv2 d * Fin dt
      in \<lparr>dx1 = v1',
          dv1 = js_div (F_net_1 params x1' v1' x2' v2' tm) (m1 params),
          dx2 = v2',
          dv2 = js_div (F_net_2 params x1' v1' x2' v2') (m2 params)\<rparr>)"

definition integrateRK4 :: "SimulationState \<Rightarrow> real \<Rightarrow> SystemParams \<Rightarrow> SimulationState" where
  "integrateRK4 state dt params =
     (let a = evaluate state (t state) 0
                \<lparr>dx1 = Fin 0, dv1 = Fin 0, dx2 = Fin 0, dv2 = Fin 0\<rparr> params;
          b = evaluate state (t state + Fin (dt * 0.5)) (dt * 0.5) a params;
          c = evaluate state (t state + Fin (dt * 0.5)) (dt * 0.5) b params;
          d = evaluate state (t state + Fin dt) dt c params;
          dxdt1 = Fin (1 / 6) * (dx1 a + Fin 2 * (dx1 b + dx1 c) + dx1 d);
          dvdt1 = Fin (1 / 6) * (dv1 a + Fin 2 * (dv1 b + dv1 c) + dv1 d);
          dxdt2 = Fin (1 / 6) * (dx2 a + Fin 2 * (dx2 b + dx2 c) + dx2 d);
          dvdt2 = Fin (1 / 6) * (dv2 a + Fin 2 * (dv2 b + dv2 c) + dv2 d)
      in \<lparr>t = t state + Fin dt,
          x1 = x1 state + dxdt1 * Fin dt,
          v1 = v1 state + dvdt1 * Fin dt,
          x2 = x2 state + dxdt2 * Fin dt,
          v2 = v2 state + dvdt2 * Fin dt\<rparr>)"

subsection \<open>The step operation as a result\<close>

text \<open>
  The error kinds are those the specification names; the source declares none.
  \<open>integrateRK4\<close> has no \<open>throw\<close>, no validation and no early return, and none of its
  operators raises: read as a result, every call is the success branch.
\<close>

datatype Error = InvalidParameter | InvalidTimestep | NonFiniteResult

definition step :: "SimulationState \<Rightarrow> real \<Rightarrow> SystemParams \<Rightarrow> Error + SimulationState" where
  "step state dt params = Inr (integrateRK4 state dt params)"



section \<open>The integrator as the specification words it\<close>

text \<open>
  The classic fourth-order Runge-Kutta step in the words of the specification: four
  derivative samples at the times \<open>t\<close>, \<open>t + dt/2\<close>, \<open>t + dt/2\<close>, \<open>t + dt\<close> with the offsets
  \<open>0\<close>, \<open>dt/2\<close>, \<open>dt/2\<close>, \<open>dt\<close>, the first probed with the zero derivative and each later
  one with the sample before it; per component the average
  \<open>(s1 + 2*s2 + 2*s3 + s4) / 6\<close>; the new state at \<open>t + dt\<close>, each component advanced
  by its average times \<open>dt\<close>. It is compared with \<open>integrateRK4\<close> below.
\<close>

definition rk4_spec :: "SimulationState \<Rightarrow> real \<Rightarrow> SystemParams \<Rightarrow> SimulationState" where
  "rk4_spec state dt params =
     (let s1 = evaluate state (t state) 0
                 \<lparr>dx1 = Fin 0, dv1 = Fin 0, dx2 = Fin 0, dv2 = Fin 0\<rparr> params;
          s2 = evaluate state (t state + Fin (dt / 2)) (dt / 2) s1 params;
          s3 = evaluate state (t state + Fin (dt / 2)) (dt / 2) s2 params;
          s4 = evaluate state (t state + Fin dt) dt s3 params;
          avg = (\<lambda>f. js_div (f s1 + Fin 2 * f s2 + Fin 2 * f s3 + f s4) 6)
      in \<lparr>t = t state + Fin dt,
          x1 = x1 state + avg dx1 * Fin dt,
          v1 = v1 state + avg dv1 * Fin dt,
          x2 = x2 state + avg dx2 * Fin dt,
          v2 = v2 state + avg dv2 * Fin dt\<rparr>)"


section \<open>Energy of a run\<close>

text \<open>
  The total mechanical energy of the specification's conservation check,
  \<open>E = m1*v1^2/2 + k1*x1^2/2 + m2*v2^2/2 + k2*(x2 - x1)^2/2\<close>. The source does not compute
  it; it is an observable of a state.
\<close>

definition energy :: "SystemParams \<Rightarrow> SimulationState \<Rightarrow> number" where
  "energy params s =
     Fin 0.5 * Fin (m1 params) * (v1 s * v1 s) + Fin 0.5 * Fin (k1 params) * (x1 s * x1 s)
     + Fin 0.5 * Fin (m2 params) * (v2 s * v2 s)
     + Fin 0.5 * Fin (k2 params) * ((x2 s - x1 s) * (x2 s - x1 s))"

text \<open>
  Repeated application of the step, as the animation loop of the application does it:
  each frame replaces the current state by \<open>integrateRK4\<close> of it, with the same time step
  and parameters.
\<close>

fun run :: "nat \<Rightarrow> SimulationState \<Rightarrow> real \<Rightarrow> SystemParams \<Rightarrow> SimulationState" where
  "run 0 state dt params = state"
| "run (Suc n) state dt params = run n (integrateRK4 state dt params) dt params"

text \<open>
  Quantities of the energy analysis, on reals. \<open>frequency_bound\<close> is the trace of the
  matrix that maps a displacement to minus its acceleration, an upper bound of the squared
  angular frequencies of the undamped system; \<open>restoring1\<close> and \<open>restoring2\<close> are the two
  components of that map; \<open>kinetic2\<close> and \<open>potential2\<close> are twice the kinetic energy of a
  velocity pair and twice the potential energy of a displacement pair.
\<close>

definition frequency_bound :: "SystemParams \<Rightarrow> real" where
  "frequency_bound params = (k1 params + k2 params) / m1 params + k2 params / m2 params"

definition restoring1 :: "SystemParams \<Rightarrow> real \<Rightarrow> real \<Rightarrow> real" where
  "restoring1 p w1 w2 = ((k1 p + k2 p) * w1 - k2 p * w2) / m1 p"

definition restoring2 :: "SystemParams \<Rightarrow> real \<Rightarrow> real \<Rightarrow> real" where
  "restoring2 p w1 w2 = k2 p * (w2 - w1) / m2 p"

definition kinetic2 :: "SystemParams \<Rightarrow> real \<Rightarrow> real \<Rightarrow> real" where
  "kinetic2 p w1 w2 = m1 p * w1 * w1 + m2 p * w2 * w2"

definition potential2 :: "SystemParams \<Rightarrow> real \<Rightarrow> real \<Rightarrow> real" where
  "potential2 p w1 w2 = k1 p * w1 * w1 + k2 p * (w2 - w1) * (w2 - w1)"


section \<open>Arithmetic of numbers\<close>

lemma plus_number_simps [simp]:
  "Fin x + Fin y = Fin (x + y)" "NonFinite + a = NonFinite" "a + NonFinite = NonFinite"
  by (simp_all add: plus_number_def split: number.splits)

lemma minus_number_simps [simp]:
  "Fin x - Fin y = Fin (x - y)" "NonFinite - a = NonFinite" "a - NonFinite = NonFinite"
  by (simp_all add: minus_number_def split: number.splits)

lemma uminus_number_simps [simp]:
  "- Fin x = Fin (- x)" "- NonFinite = NonFinite"
  by (simp_all add: uminus_number_def)

lemma times_number_simps [simp]:
  "Fin x * Fin y = Fin (x * y)" "NonFinite * a = NonFinite" "a * NonFinite = NonFinite"
  by (simp_all add: times_number_def split: number.splits)

lemma plus_Fin_0 [simp]: "a + Fin 0 = a" "Fin 0 + a = a"
  by (cases a; simp)+

lemma neg_plus_number: "- a - b = - (a + (b::number))"
  by (cases a; cases b) simp_all

lemma js_div_zero [simp]: "js_div a 0 = NonFinite"
  by (cases a) simp_all

lemma times_js_div: "m \<noteq> 0 \<Longrightarrow> Fin m * js_div a m = a"
  by (cases a) simp_all

lemma sixth_times_eq_js_div:
  "Fin (1 / 6) * (A + Fin 2 * (B + C) + D) = js_div (A + Fin 2 * B + Fin 2 * C + D) 6"
  by (cases A; cases B; cases C; cases D) (simp_all add: algebra_simps)

lemma finiteState_cases:
  assumes "finiteState s"
  obtains T X1 V1 X2 V2
  where "s = \<lparr>t = Fin T, x1 = Fin X1, v1 = Fin V1, x2 = Fin X2, v2 = Fin V2\<rparr>"
proof -
  from assms obtain T X1 V1 X2 V2
    where "t s = Fin T" "x1 s = Fin X1" "v1 s = Fin V1" "x2 s = Fin X2" "v2 s = Fin V2"
    unfolding finiteState_def
    by (cases "t s"; cases "x1 s"; cases "v1 s"; cases "x2 s"; cases "v2 s") auto
  then have "s = \<lparr>t = Fin T, x1 = Fin X1, v1 = Fin V1, x2 = Fin X2, v2 = Fin V2\<rparr>"
    by (cases s) simp
  then show thesis by (rule that)
qed

lemmas engine_defs =
  evaluate_def F_net_1_def F_net_2_def springForce2_def dampingForce2_def Force_def


section \<open>Non-finite results\<close>

text \<open>A zero mass makes the body's acceleration, hence its next position and velocity, non-finite.\<close>

lemma m1_zero_NonFinite:
  "m1 params = 0 \<Longrightarrow>
     x1 (integrateRK4 state dt params) = NonFinite \<and> v1 (integrateRK4 state dt params) = NonFinite"
  by (simp add: integrateRK4_def evaluate_def Let_def)

lemma m2_zero_NonFinite:
  "m2 params = 0 \<Longrightarrow>
     x2 (integrateRK4 state dt params) = NonFinite \<and> v2 (integrateRK4 state dt params) = NonFinite"
  by (simp add: integrateRK4_def evaluate_def Let_def)

text \<open>With both masses non-zero a finite state has a finite successor.\<close>

lemma integrateRK4_finite:
  assumes "finiteState s" "m1 p \<noteq> 0" "m2 p \<noteq> 0"
  shows "finiteState (integrateRK4 s dt p)"
proof -
  from assms(1) obtain T X1 V1 X2 V2
    where s: "s = \<lparr>t = Fin T, x1 = Fin X1, v1 = Fin V1, x2 = Fin X2, v2 = Fin V2\<rparr>"
    by (rule finiteState_cases)
  show ?thesis using assms(2,3) unfolding s
    by (simp add: integrateRK4_def Let_def engine_defs finiteState_def)
qed

lemma finiteState_initialState: "finiteState initialState"
  by (simp add: finiteState_def initialState_def)


section \<open>Error handling: claims C1, C4 and C5\<close>

text \<open>
  Claim C1 says that a step with \<open>m1 \<le> 0\<close> or \<open>m2 \<le> 0\<close> returns an \<open>InvalidParameter\<close>
  error and never a state containing \<open>NaN\<close>. Counterexample: with \<open>m1 = 0\<close> and every
  other parameter at its default, the step from the initial state with the application's
  time step is no error but a state, and its four mechanical components are non-finite.
\<close>

theorem step_zero_mass_counterexample:
  "step initialState PHYSICS_DT (DEFAULT_PARAMS\<lparr>m1 := 0\<rparr>) \<noteq> Inl InvalidParameter
   \<and> step initialState PHYSICS_DT (DEFAULT_PARAMS\<lparr>m1 := 0\<rparr>) =
       Inr \<lparr>t = Fin (1 / 100), x1 = NonFinite, v1 = NonFinite, x2 = NonFinite, v2 = NonFinite\<rparr>"
  by (simp add: step_def integrateRK4_def engine_defs initialState_def PHYSICS_DT_def
      DEFAULT_PARAMS_def Let_def)

text \<open>
  Claim C1 as amended: for every state and every \<open>dt\<close>, a step with \<open>m1 \<le> 0\<close> or
  \<open>m2 \<le> 0\<close> returns a state and no error; the masses are not validated. With \<open>m1 = 0\<close>
  the returned \<open>x1\<close> and \<open>v1\<close> are non-finite, with \<open>m2 = 0\<close> the returned \<open>x2\<close> and \<open>v2\<close>.
\<close>

theorem step_nonpositive_mass:
  assumes "m1 params \<le> 0 \<or> m2 params \<le> 0"
  shows "step state dt params = Inr (integrateRK4 state dt params)
       \<and> (m1 params = 0 \<longrightarrow>
            x1 (integrateRK4 state dt params) = NonFinite
          \<and> v1 (integrateRK4 state dt params) = NonFinite)
       \<and> (m2 params = 0 \<longrightarrow>
            x2 (integrateRK4 state dt params) = NonFinite
          \<and> v2 (integrateRK4 state dt params) = NonFinite)"
  by (simp add: step_def m1_zero_NonFinite m2_zero_NonFinite)

text \<open>Claim C1, witness: the default parameters with \<open>m2 = 0\<close>, from the initial state.\<close>

theorem step_nonpositive_mass_witness:
  "m2 (DEFAULT_PARAMS\<lparr>m2 := 0\<rparr>) \<le> 0
   \<and> step initialState PHYSICS_DT (DEFAULT_PARAMS\<lparr>m2 := 0\<rparr>) =
       Inr (integrateRK4 initialState PHYSICS_DT (DEFAULT_PARAMS\<lparr>m2 := 0\<rparr>))
   \<and> x2 (integrateRK4 initialState PHYSICS_DT (DEFAULT_PARAMS\<lparr>m2 := 0\<rparr>)) = NonFinite
   \<and> v2 (integrateRK4 initialState PHYSICS_DT (DEFAULT_PARAMS\<lparr>m2 := 0\<rparr>)) = NonFinite"
  using step_nonpositive_mass [of "DEFAULT_PARAMS\<lparr>m2 := 0\<rparr>" initialState PHYSICS_DT]
  by simp

text \<open>
  Claim C4 says that a step with \<open>dt \<le> 0\<close> fails with \<open>InvalidTimestep\<close>. Counterexample:
  with \<open>dt = -0.01\<close> the step from the initial state with the default parameters is no
  error but a state, whose time is \<open>-0.01\<close>.
\<close>

theorem step_negative_dt_counterexample:
  "step initialState (- PHYSICS_DT) DEFAULT_PARAMS \<noteq> Inl InvalidTimestep
   \<and> step initialState (- PHYSICS_DT) DEFAULT_PARAMS =
       Inr (integrateRK4 initialState (- PHYSICS_DT) DEFAULT_PARAMS)
   \<and> t (integrateRK4 initialState (- PHYSICS_DT) DEFAULT_PARAMS) = Fin (- (1 / 100))"
  by (simp add: step_def integrateRK4_def initialState_def PHYSICS_DT_def Let_def)

text \<open>
  Claim C4 as amended: for every state and every parameter set, a step with \<open>dt \<le> 0\<close>
  does not fail; it returns the state of the same Runge-Kutta update as a step with a
  positive \<open>dt\<close>, and the time of that state is \<open>t + dt\<close>.
\<close>

theorem step_nonpositive_dt:
  assumes "dt \<le> 0"
  shows "step state dt params = Inr (integrateRK4 state dt params)
       \<and> integrateRK4 state dt params = rk4_spec state dt params
       \<and> t (integrateRK4 state dt params) = t state + Fin dt"
  by (simp add: step_def integrateRK4_def rk4_spec_def Let_def sixth_times_eq_js_div)

text \<open>Claim C4, witness: \<open>dt = 0\<close>, the default parameters, from the initial state.\<close>

theorem step_nonpositive_dt_witness:
  "(0::real) \<le> 0
   \<and> step initialState 0 DEFAULT_PARAMS = Inr (integrateRK4 initialState 0 DEFAULT_PARAMS)
   \<and> integrateRK4 initialState 0 DEFAULT_PARAMS = rk4_spec initialState 0 DEFAULT_PARAMS
   \<and> t (integrateRK4 initialState 0 DEFAULT_PARAMS) = t initialState + Fin 0"
proof -
  have h: "(0::real) \<le> 0" by simp
  from h step_nonpositive_dt [OF h, of initialState DEFAULT_PARAMS] show ?thesis
    by (rule conjI)
qed

text \<open>
  Claim C5 says that the step operation has a result type with an error branch and
  reports \<open>NonFiniteResult\<close> whenever the computed next state has a \<open>NaN\<close> or infinite
  component. Counterexample: with \<open>m2 = 0\<close> and every other parameter at its default,
  the state computed from the initial state is not finite, and the step returns it.
\<close>

theorem step_non_finite_counterexample:
  "\<not> finiteState (integrateRK4 initialState PHYSICS_DT (DEFAULT_PARAMS\<lparr>m2 := 0\<rparr>))
   \<and> step initialState PHYSICS_DT (DEFAULT_PARAMS\<lparr>m2 := 0\<rparr>) \<noteq> Inl NonFiniteResult
   \<and> step initialState PHYSICS_DT (DEFAULT_PARAMS\<lparr>m2 := 0\<rparr>) =
       Inr \<lparr>t = Fin (1 / 100), x1 = NonFinite, v1 = NonFinite, x2 = NonFinite, v2 = NonFinite\<rparr>"
  by (simp add: step_def integrateRK4_def engine_defs initialState_def PHYSICS_DT_def
      DEFAULT_PARAMS_def Let_def finiteState_def)

text \<open>
  Claim C5 as amended: the step operation returns a plain state for every input and
  never an error, without any retry; the state it computes is returned as it is, finite
  or not. In exact arithmetic the state returned from a finite state is finite exactly
  when both masses are non-zero.
\<close>

theorem step_returns_computed_state:
  "step state dt params = Inr (integrateRK4 state dt params)
   \<and> (finiteState state \<longrightarrow>
        (finiteState (integrateRK4 state dt params) \<longleftrightarrow> m1 params \<noteq> 0 \<and> m2 params \<noteq> 0))"
proof -
  have "\<not> finiteState (integrateRK4 state dt params)" if "m1 params = 0 \<or> m2 params = 0"
    using that m1_zero_NonFinite [of params state dt] m2_zero_NonFinite [of params state dt]
    by (auto simp add: finiteState_def)
  then show ?thesis
    by (auto simp add: step_def integrateRK4_finite)
qed

text \<open>Claim C5, witness: the default parameters, from the initial state.\<close>

theorem step_returns_computed_state_witness:
  "finiteState initialState
   \<and> step initialState PHYSICS_DT DEFAULT_PARAMS =
       Inr (integrateRK4 initialState PHYSICS_DT DEFAULT_PARAMS)
   \<and> finiteState (integrateRK4 initialState PHYSICS_DT DEFAULT_PARAMS)"
  using step_returns_computed_state [of initialState PHYSICS_DT DEFAULT_PARAMS]
  by (simp add: finiteState_initialState DEFAULT_PARAMS_def)


section \<open>The derivative evaluator: claims C3, C6 and C8\<close>

text \<open>
  Claim C3: for a real-valued state, time, offset and partial derivative and parameters
  with \<open>m1 > 0\<close> and \<open>m2 > 0\<close>, \<open>evaluate\<close> forms the trial state
  \<open>x1' = x1 + dx1 * dt_offset\<close> (likewise \<open>v1'\<close>, \<open>x2'\<close>, \<open>v2'\<close>) and returns exactly
  \<open>dx1 = v1'\<close>, \<open>dv1 = F1 / m1\<close>, \<open>dx2 = v2'\<close>, \<open>dv2 = F2 / m2\<close> with
  \<open>F1 = -k1*x1' - b1*v1' + k2*(x2' - x1') + b2*(v2' - v1') + force(t)\<close> and
  \<open>F2 = -(k2*(x2' - x1') + b2*(v2' - v1'))\<close>.
\<close>

theorem evaluate_equations_of_motion:
  assumes "0 < m1 params" "0 < m2 params"
  shows "evaluate \<lparr>t = T, x1 = Fin X1, v1 = Fin V1, x2 = Fin X2, v2 = Fin V2\<rparr> (Fin u) dt_offset
           \<lparr>dx1 = Fin D1, dv1 = Fin D2, dx2 = Fin D3, dv2 = Fin D4\<rparr> params =
     (let x1' = X1 + D1 * dt_offset;
          v1' = V1 + D2 * dt_offset;
          x2' = X2 + D3 * dt_offset;
          v2' = V2 + D4 * dt_offset;
          F1 = - k1 params * x1' - b1 params * v1' + k2 params * (x2' - x1')
                 + b2 params * (v2' - v1')
                 + forceAmplitude params * sin (2 * pi * forceFrequency params * u);
          F2 = - (k2 params * (x2' - x1') + b2 params * (v2' - v1'))
      in \<lparr>dx1 = Fin v1', dv1 = Fin (F1 / m1 params),
          dx2 = Fin v2', dv2 = Fin (F2 / m2 params)\<rparr>)"
  using assms by (simp add: engine_defs Let_def)

text \<open>
  Claim C3, witness: the default parameters, body 1 displaced by one unit and at rest,
  time and offset zero.
\<close>

theorem evaluate_equations_of_motion_witness:
  "0 < m1 DEFAULT_PARAMS \<and> 0 < m2 DEFAULT_PARAMS
   \<and> evaluate \<lparr>t = Fin 0, x1 = Fin 1, v1 = Fin 0, x2 = Fin 0, v2 = Fin 0\<rparr> (Fin 0) 0
         \<lparr>dx1 = Fin 0, dv1 = Fin 0, dx2 = Fin 0, dv2 = Fin 0\<rparr> DEFAULT_PARAMS =
       \<lparr>dx1 = Fin 0, dv1 = Fin (- 44), dx2 = Fin 0, dv2 = Fin 40\<rparr>"
  using evaluate_equations_of_motion
    [where params = DEFAULT_PARAMS and T = "Fin 0" and ?X1.0 = 1 and ?V1.0 = 0 and ?X2.0 = 0
       and ?V2.0 = 0 and u = 0 and dt_offset = 0 and ?D1.0 = 0 and ?D2.0 = 0 and ?D3.0 = 0
       and ?D4.0 = 0]
  by (simp add: DEFAULT_PARAMS_def Let_def)

text \<open>
  Claim C6: the drive force computed in \<open>evaluate\<close> at a time \<open>u\<close> is
  \<open>amplitude * sin (2 * pi * frequency * u)\<close>, a function of these three inputs alone and
  defined for every real \<open>u\<close>; it is a summand of the net force on body 1, and no output
  other than \<open>dv1\<close> depends on the amplitude, the frequency or the time.
\<close>

theorem Force_drives_body_1_only:
  "Force params (Fin u) = Fin (forceAmplitude params * sin (2 * pi * forceFrequency params * u))
   \<and> dv1 (evaluate state tm dt d params) =
       js_div (F_net_1 (params\<lparr>forceAmplitude := 0\<rparr>)
                 (x1 state + dx1 d * Fin dt) (v1 state + dv1 d * Fin dt)
                 (x2 state + dx2 d * Fin dt) (v2 state + dv2 d * Fin dt) tm
               + Force params tm) (m1 params)
   \<and> dx1 (evaluate state tm dt d (params\<lparr>forceAmplitude := A, forceFrequency := f\<rparr>)) =
       dx1 (evaluate state tm' dt d params)
   \<and> dx2 (evaluate state tm dt d (params\<lparr>forceAmplitude := A, forceFrequency := f\<rparr>)) =
       dx2 (evaluate state tm' dt d params)
   \<and> dv2 (evaluate state tm dt d (params\<lparr>forceAmplitude := A, forceFrequency := f\<rparr>)) =
       dv2 (evaluate state tm' dt d params)"
proof (intro conjI)
  show "Force params (Fin u) =
      Fin (forceAmplitude params * sin (2 * pi * forceFrequency params * u))"
    by (simp add: Force_def)
  show "dv1 (evaluate state tm dt d params) =
      js_div (F_net_1 (params\<lparr>forceAmplitude := 0\<rparr>)
                (x1 state + dx1 d * Fin dt) (v1 state + dv1 d * Fin dt)
                (x2 state + dx2 d * Fin dt) (v2 state + dv2 d * Fin dt) tm
              + Force params tm) (m1 params)"
    by (cases tm) (simp_all add: engine_defs Let_def)
qed (simp_all add: engine_defs Let_def)

text \<open>
  Claim C8: in every call of \<open>evaluate\<close> with \<open>m1 > 0\<close> and \<open>m2 > 0\<close>, the net force on
  body 1 is the sum of its own spring, damping and drive terms and of the coupling term
  \<open>k2*(x2' - x1') + b2*(v2' - v1')\<close>, and the net force on body 2 is exactly the negation
  of that coupling term, with no drive, \<open>k1\<close> or \<open>b1\<close> term. The net forces are read off
  the result as mass times acceleration.
\<close>

theorem evaluate_third_law:
  assumes "0 < m1 params" "0 < m2 params"
  shows "(let x1' = x1 state + dx1 d * Fin dt;
              v1' = v1 state + dv1 d * Fin dt;
              x2' = x2 state + dx2 d * Fin dt;
              v2' = v2 state + dv2 d * Fin dt;
              coupling = Fin (k2 params) * (x2' - x1') + Fin (b2 params) * (v2' - v1')
          in F_net_2 params x1' v1' x2' v2' = - coupling
           \<and> F_net_1 params x1' v1' x2' v2' tm =
               - Fin (k1 params) * x1' - Fin (b1 params) * v1' + Force params tm + coupling
           \<and> Fin (m1 params) * dv1 (evaluate state tm dt d params) =
               - Fin (k1 params) * x1' - Fin (b1 params) * v1' + Force params tm + coupling
           \<and> Fin (m2 params) * dv2 (evaluate state tm dt d params) = - coupling)"
  using assms
  by (simp add: evaluate_def Let_def times_js_div F_net_1_def F_net_2_def springForce2_def
      dampingForce2_def neg_plus_number add.assoc add.commute add.left_commute)

text \<open>
  Claim C8, witness: the default parameters, body 1 displaced by one unit and moving at
  unit speed, body 2 at rest at the origin, at time zero.
\<close>

theorem evaluate_third_law_witness:
  "0 < m1 DEFAULT_PARAMS \<and> 0 < m2 DEFAULT_PARAMS
   \<and> Fin (m1 DEFAULT_PARAMS) *
       dv1 (evaluate \<lparr>t = Fin 0, x1 = Fin 1, v1 = Fin 1, x2 = Fin 0, v2 = Fin 0\<rparr> (Fin 0) 0
              \<lparr>dx1 = Fin 0, dv1 = Fin 0, dx2 = Fin 0, dv2 = Fin 0\<rparr> DEFAULT_PARAMS) =
       Fin (- 2010) + Fin (- 215)
   \<and> Fin (m2 DEFAULT_PARAMS) *
       dv2 (evaluate \<lparr>t = Fin 0, x1 = Fin 1, v1 = Fin 1, x2 = Fin 0, v2 = Fin 0\<rparr> (Fin 0) 0
              \<lparr>dx1 = Fin 0, dv1 = Fin 0, dx2 = Fin 0, dv2 = Fin 0\<rparr> DEFAULT_PARAMS) =
       - Fin (- 215)"
  using evaluate_third_law [of DEFAULT_PARAMS
      "\<lparr>t = Fin 0, x1 = Fin 1, v1 = Fin 1, x2 = Fin 0, v2 = Fin 0\<rparr>"
      "\<lparr>dx1 = Fin 0, dv1 = Fin 0, dx2 = Fin 0, dv2 = Fin 0\<rparr>" 0 "Fin 0"]
  by (simp add: DEFAULT_PARAMS_def Let_def Force_def)


section \<open>The integrator: claims C2, C7 and C10\<close>

text \<open>
  Claim C2: for every state, every \<open>dt\<close> and every parameter set, one call of
  \<open>integrateRK4\<close> computes the classic RK4 update \<open>rk4_spec\<close>: four calls of \<open>evaluate\<close> at
  the times \<open>t\<close>, \<open>t + dt/2\<close>, \<open>t + dt/2\<close>, \<open>t + dt\<close> with the offsets \<open>0\<close>, \<open>dt/2\<close>, \<open>dt/2\<close>,
  \<open>dt\<close>, the first with the zero derivative and each later one with the result before it,
  combined per component as \<open>(k1 + 2*k2 + 2*k3 + k4) / 6\<close>; the returned state has
  \<open>t' = t + dt\<close> and each of \<open>x1\<close>, \<open>v1\<close>, \<open>x2\<close>, \<open>v2\<close> advanced by its combined derivative
  times \<open>dt\<close>.
\<close>

theorem integrateRK4_classic_RK4:
  "integrateRK4 state dt params = rk4_spec state dt params"
  by (simp add: integrateRK4_def rk4_spec_def Let_def sixth_times_eq_js_div)








section \<open>Energy under the undamped, undriven step: claim C9\<close>

text \<open>
  Without damping and drive the acceleration is minus the restoring map of the
  displacement, and the step is the degree-four Taylor polynomial of the exact flow.
\<close>

lemma rk4_undamped:
  fixes X1 X2 V1 V2 h :: real
  assumes "b1 p = 0" "b2 p = 0" "forceAmplitude p = 0" "m1 p \<noteq> 0" "m2 p \<noteq> 0"
  defines "bx1 \<equiv> restoring1 p X1 X2" and "bx2 \<equiv> restoring2 p X1 X2"
    and "bv1 \<equiv> restoring1 p V1 V2" and "bv2 \<equiv> restoring2 p V1 V2"
  defines "bbx1 \<equiv> restoring1 p bx1 bx2" and "bbx2 \<equiv> restoring2 p bx1 bx2"
    and "bbv1 \<equiv> restoring1 p bv1 bv2" and "bbv2 \<equiv> restoring2 p bv1 bv2"
  shows "integrateRK4 \<lparr>t = Fin T, x1 = Fin X1, v1 = Fin V1, x2 = Fin X2, v2 = Fin V2\<rparr> h p =
     \<lparr>t = Fin (T + h),
      x1 = Fin ((24 * X1 + 24 * h * V1 - 12 * h^2 * bx1 - 4 * h^3 * bv1 + h^4 * bbx1) / 24),
      v1 = Fin ((24 * V1 - 24 * h * bx1 - 12 * h^2 * bv1 + 4 * h^3 * bbx1 + h^4 * bbv1) / 24),
      x2 = Fin ((24 * X2 + 24 * h * V2 - 12 * h^2 * bx2 - 4 * h^3 * bv2 + h^4 * bbx2) / 24),
      v2 = Fin ((24 * V2 - 24 * h * bx2 - 12 * h^2 * bv2 + 4 * h^3 * bbx2 + h^4 * bbv2) / 24)\<rparr>"
  using assms(1-5)
  unfolding bbx1_def bbx2_def bbv1_def bbv2_def bx1_def bx2_def bv1_def bv2_def
  apply (simp add: integrateRK4_def Let_def engine_defs restoring1_def restoring2_def)
  apply (intro conjI)
     apply (simp_all add: field_simps power2_eq_square power3_eq_cube power4_eq_xxxx)
  done


text \<open>
  The energy balance of one step, as a polynomial identity: 576 times the energy before the
  step, minus the energy of 24 times the state after it, is \<open>dt^6\<close> times a combination of
  energies of restoring-map images. The stiffnesses are written \<open>k1 = a * m1\<close> and
  \<open>k2 = c * m1 * m2\<close>, which makes every term a polynomial.
\<close>

lemma energy_identity_poly:
  fixes a c M1 M2 h X1 X2 V1 V2 :: real and B1 B2 PM PK :: "real \<Rightarrow> real \<Rightarrow> real"
  assumes B1: "\<And>w1 w2. B1 w1 w2 = (a + c * M2) * w1 - c * M2 * w2"
    and B2: "\<And>w1 w2. B2 w1 w2 = c * M1 * (w2 - w1)"
    and PM: "\<And>w1 w2. PM w1 w2 = M1 * w1 * w1 + M2 * w2 * w2"
    and PK: "\<And>w1 w2. PK w1 w2 = a * M1 * w1 * w1 + c * M1 * M2 * (w2 - w1) * (w2 - w1)"
  shows "576 * (PM V1 V2 + PK X1 X2)
       - (PM (24 * V1 - 24 * h * B1 X1 X2 - 12 * h^2 * B1 V1 V2
               + 4 * h^3 * B1 (B1 X1 X2) (B2 X1 X2) + h^4 * B1 (B1 V1 V2) (B2 V1 V2))
             (24 * V2 - 24 * h * B2 X1 X2 - 12 * h^2 * B2 V1 V2
               + 4 * h^3 * B2 (B1 X1 X2) (B2 X1 X2) + h^4 * B2 (B1 V1 V2) (B2 V1 V2))
          + PK (24 * X1 + 24 * h * V1 - 12 * h^2 * B1 X1 X2 - 4 * h^3 * B1 V1 V2
               + h^4 * B1 (B1 X1 X2) (B2 X1 X2))
             (24 * X2 + 24 * h * V2 - 12 * h^2 * B2 X1 X2 - 4 * h^3 * B2 V1 V2
               + h^4 * B2 (B1 X1 X2) (B2 X1 X2)))
     = h^6 * (8 * PK (B1 V1 V2) (B2 V1 V2)
              - h^2 * PM (B1 (B1 V1 V2) (B2 V1 V2)) (B2 (B1 V1 V2) (B2 V1 V2))
              + 8 * PM (B1 (B1 X1 X2) (B2 X1 X2)) (B2 (B1 X1 X2) (B2 X1 X2))
              - h^2 * PK (B1 (B1 X1 X2) (B2 X1 X2)) (B2 (B1 X1 X2) (B2 X1 X2)))"
  unfolding B1 B2 PM PK by algebra

text \<open>
  A second balance: 432 times the energy before the step exceeds the \<open>dt^6\<close> term of the
  first balance by a sum of energies, because
  \<open>z^4 - 8*z^3 + 432 = (z - 6)^2 * (z^2 + 4*z + 12)\<close>.
\<close>

lemma quarter_poly:
  fixes a c M1 M2 h X1 X2 V1 V2 :: real and B1 B2 PM PK :: "real \<Rightarrow> real \<Rightarrow> real"
  assumes B1: "\<And>w1 w2. B1 w1 w2 = (a + c * M2) * w1 - c * M2 * w2"
    and B2: "\<And>w1 w2. B2 w1 w2 = c * M1 * (w2 - w1)"
    and PM: "\<And>w1 w2. PM w1 w2 = M1 * w1 * w1 + M2 * w2 * w2"
    and PK: "\<And>w1 w2. PK w1 w2 = a * M1 * w1 * w1 + c * M1 * M2 * (w2 - w1) * (w2 - w1)"
  shows "432 * (PM V1 V2 + PK X1 X2)
       - h^6 * (8 * PK (B1 V1 V2) (B2 V1 V2)
              - h^2 * PM (B1 (B1 V1 V2) (B2 V1 V2)) (B2 (B1 V1 V2) (B2 V1 V2))
              + 8 * PM (B1 (B1 X1 X2) (B2 X1 X2)) (B2 (B1 X1 X2) (B2 X1 X2))
              - h^2 * PK (B1 (B1 X1 X2) (B2 X1 X2)) (B2 (B1 X1 X2) (B2 X1 X2)))
     = PM (h^2 * B1 (h^2 * B1 V1 V2 - 6 * V1) (h^2 * B2 V1 V2 - 6 * V2))
          (h^2 * B2 (h^2 * B1 V1 V2 - 6 * V1) (h^2 * B2 V1 V2 - 6 * V2))
       + 4 * (h^2 * PK (h^2 * B1 V1 V2 - 6 * V1) (h^2 * B2 V1 V2 - 6 * V2))
       + 12 * PM (h^2 * B1 V1 V2 - 6 * V1) (h^2 * B2 V1 V2 - 6 * V2)
       + PK (h^2 * B1 (h^2 * B1 X1 X2 - 6 * X1) (h^2 * B2 X1 X2 - 6 * X2))
           (h^2 * B2 (h^2 * B1 X1 X2 - 6 * X1) (h^2 * B2 X1 X2 - 6 * X2))
       + 4 * (h^2 * PM (B1 (h^2 * B1 X1 X2 - 6 * X1) (h^2 * B2 X1 X2 - 6 * X2))
                       (B2 (h^2 * B1 X1 X2 - 6 * X1) (h^2 * B2 X1 X2 - 6 * X2)))
       + 12 * PK (h^2 * B1 X1 X2 - 6 * X1) (h^2 * B2 X1 X2 - 6 * X2)"
  unfolding B1 B2 PM PK by algebra

text \<open>
  The potential form is bounded by \<open>frequency_bound\<close> times the kinetic form, and the
  kinetic form of a restoring-map image by \<open>frequency_bound\<close> times the potential form:
  in both cases the difference is a sum of squares with non-negative coefficients.
\<close>

lemma potential_le_kinetic_poly:
  fixes a c M1 M2 w1 w2 :: real
  shows "(a + c * M2 + c * M1) * (M1 * w1 * w1 + M2 * w2 * w2)
         - (a * M1 * w1 * w1 + c * M1 * M2 * (w2 - w1) * (w2 - w1))
       = a * M2 * (w2 * w2) + c * ((M1 * w1 + M2 * w2) * (M1 * w1 + M2 * w2))"
  by algebra

lemma kinetic_le_potential_poly:
  fixes a c M1 M2 w1 w2 :: real
  shows "(a + c * M2 + c * M1) * (a * M1 * w1 * w1 + c * M1 * M2 * (w2 - w1) * (w2 - w1))
         - (M1 * ((a + c * M2) * w1 - c * M2 * w2) * ((a + c * M2) * w1 - c * M2 * w2)
            + M2 * (c * M1 * (w2 - w1)) * (c * M1 * (w2 - w1)))
       = a * c * M1 * M2 * (w2 * w2) + a * c * M1 * M1 * (w1 * w1)"
  by algebra

lemma params_poly:
  assumes "0 < m1 p" "0 < m2 p" "0 < k1 p" "0 < k2 p"
  shows "\<exists>a c. 0 \<le> a \<and> 0 \<le> c
    \<and> frequency_bound p = a + c * m2 p + c * m1 p
    \<and> (\<forall>w1 w2. restoring1 p w1 w2 = (a + c * m2 p) * w1 - c * m2 p * w2)
    \<and> (\<forall>w1 w2. restoring2 p w1 w2 = c * m1 p * (w2 - w1))
    \<and> (\<forall>w1 w2. kinetic2 p w1 w2 = m1 p * w1 * w1 + m2 p * w2 * w2)
    \<and> (\<forall>w1 w2. potential2 p w1 w2 =
           a * m1 p * w1 * w1 + c * m1 p * m2 p * (w2 - w1) * (w2 - w1))"
proof (intro exI conjI allI)
  let ?a = "k1 p / m1 p" and ?c = "k2 p / (m1 p * m2 p)"
  show "0 \<le> ?a" "0 \<le> ?c" using assms by simp_all
  show "frequency_bound p = ?a + ?c * m2 p + ?c * m1 p"
    using assms by (simp add: frequency_bound_def field_simps)
  show "restoring1 p w1 w2 = (?a + ?c * m2 p) * w1 - ?c * m2 p * w2" for w1 w2
    using assms by (simp add: restoring1_def field_simps)
  show "restoring2 p w1 w2 = ?c * m1 p * (w2 - w1)" for w1 w2
    using assms by (simp add: restoring2_def field_simps)
  show "kinetic2 p w1 w2 = m1 p * w1 * w1 + m2 p * w2 * w2" for w1 w2
    by (simp add: kinetic2_def)
  show "potential2 p w1 w2 = ?a * m1 p * w1 * w1 + ?c * m1 p * m2 p * (w2 - w1) * (w2 - w1)"
    for w1 w2
    using assms by (simp add: potential2_def field_simps)
qed

lemma frequency_bound_nonneg:
  assumes "0 < m1 p" "0 < m2 p" "0 < k1 p" "0 < k2 p"
  shows "0 \<le> frequency_bound p"
  using assms by (simp add: frequency_bound_def)

lemma kinetic2_nonneg:
  assumes "0 < m1 p" "0 < m2 p"
  shows "0 \<le> kinetic2 p w1 w2"
  using assms by (simp add: kinetic2_def mult.assoc)

lemma potential2_nonneg:
  assumes "0 < k1 p" "0 < k2 p"
  shows "0 \<le> potential2 p w1 w2"
  using assms by (simp add: potential2_def mult.assoc)

lemma potential_le_kinetic:
  assumes "0 < m1 p" "0 < m2 p" "0 < k1 p" "0 < k2 p"
  shows "potential2 p w1 w2 \<le> frequency_bound p * kinetic2 p w1 w2"
proof -
  from params_poly [OF assms] obtain a c where ac: "0 \<le> a" "0 \<le> c"
    and L: "frequency_bound p = a + c * m2 p + c * m1 p"
    and B1: "\<And>w1 w2. restoring1 p w1 w2 = (a + c * m2 p) * w1 - c * m2 p * w2"
    and B2: "\<And>w1 w2. restoring2 p w1 w2 = c * m1 p * (w2 - w1)"
    and PM: "\<And>w1 w2. kinetic2 p w1 w2 = m1 p * w1 * w1 + m2 p * w2 * w2"
    and PK: "\<And>w1 w2. potential2 p w1 w2 =
           a * m1 p * w1 * w1 + c * m1 p * m2 p * (w2 - w1) * (w2 - w1)"
    by blast
  have "0 \<le> a * m2 p" using ac assms by simp
  then have "0 \<le> a * m2 p * (w2 * w2)"
    by (rule mult_nonneg_nonneg) simp
  moreover have "0 \<le> c * ((m1 p * w1 + m2 p * w2) * (m1 p * w1 + m2 p * w2))"
    using ac by (simp add: mult_nonneg_nonneg)
  ultimately
  have "0 \<le> a * m2 p * (w2 * w2) + c * ((m1 p * w1 + m2 p * w2) * (m1 p * w1 + m2 p * w2))"
    by simp
  then show ?thesis
    unfolding L PM PK
    using potential_le_kinetic_poly [of a c "m2 p" "m1 p" w1 w2] by linarith
qed

lemma kinetic_restoring_le_potential:
  assumes "0 < m1 p" "0 < m2 p" "0 < k1 p" "0 < k2 p"
  shows "kinetic2 p (restoring1 p w1 w2) (restoring2 p w1 w2)
           \<le> frequency_bound p * potential2 p w1 w2"
proof -
  from params_poly [OF assms] obtain a c where ac: "0 \<le> a" "0 \<le> c"
    and L: "frequency_bound p = a + c * m2 p + c * m1 p"
    and B1: "\<And>w1 w2. restoring1 p w1 w2 = (a + c * m2 p) * w1 - c * m2 p * w2"
    and B2: "\<And>w1 w2. restoring2 p w1 w2 = c * m1 p * (w2 - w1)"
    and PM: "\<And>w1 w2. kinetic2 p w1 w2 = m1 p * w1 * w1 + m2 p * w2 * w2"
    and PK: "\<And>w1 w2. potential2 p w1 w2 =
           a * m1 p * w1 * w1 + c * m1 p * m2 p * (w2 - w1) * (w2 - w1)"
    by blast
  have "0 \<le> a * c * m1 p * m2 p" "0 \<le> a * c * m1 p * m1 p"
    using ac assms by simp_all
  then have "0 \<le> a * c * m1 p * m2 p * (w2 * w2)" "0 \<le> a * c * m1 p * m1 p * (w1 * w1)"
    by (simp_all add: mult_nonneg_nonneg)
  then have "0 \<le> a * c * m1 p * m2 p * (w2 * w2) + a * c * m1 p * m1 p * (w1 * w1)"
    by simp
  then show ?thesis
    unfolding L PM PK B1 B2
    using kinetic_le_potential_poly [of a c "m2 p" "m1 p" w1 w2] by linarith
qed


lemma kinetic2_scale: "kinetic2 p (24 * u) (24 * w) = 576 * kinetic2 p u w"
  unfolding kinetic2_def by algebra

lemma potential2_scale: "potential2 p (24 * u) (24 * w) = 576 * potential2 p u w"
  unfolding potential2_def by algebra

lemma cube_bound_kinetic:
  assumes pos: "0 < m1 p" "0 < m2 p" "0 < k1 p" "0 < k2 p"
  shows "potential2 p (restoring1 p w1 w2) (restoring2 p w1 w2)
           \<le> frequency_bound p ^ 3 * kinetic2 p w1 w2"
proof -
  let ?L = "frequency_bound p"
  have L0: "0 \<le> ?L" using pos by (rule frequency_bound_nonneg)
  have "potential2 p (restoring1 p w1 w2) (restoring2 p w1 w2)
          \<le> ?L * kinetic2 p (restoring1 p w1 w2) (restoring2 p w1 w2)"
    using pos by (rule potential_le_kinetic)
  also have "\<dots> \<le> ?L * (?L * potential2 p w1 w2)"
    using kinetic_restoring_le_potential [OF pos] L0 by (rule mult_left_mono)
  also have "\<dots> \<le> ?L * (?L * (?L * kinetic2 p w1 w2))"
    using potential_le_kinetic [OF pos] L0 by (intro mult_left_mono)
  also have "\<dots> = ?L ^ 3 * kinetic2 p w1 w2"
    by (simp add: power3_eq_cube mult.assoc)
  finally show ?thesis .
qed

lemma cube_bound_potential:
  assumes pos: "0 < m1 p" "0 < m2 p" "0 < k1 p" "0 < k2 p"
  shows "kinetic2 p (restoring1 p (restoring1 p w1 w2) (restoring2 p w1 w2))
                    (restoring2 p (restoring1 p w1 w2) (restoring2 p w1 w2))
           \<le> frequency_bound p ^ 3 * potential2 p w1 w2"
proof -
  let ?L = "frequency_bound p"
  let ?b1 = "restoring1 p w1 w2" and ?b2 = "restoring2 p w1 w2"
  have L0: "0 \<le> ?L" using pos by (rule frequency_bound_nonneg)
  have "kinetic2 p (restoring1 p ?b1 ?b2) (restoring2 p ?b1 ?b2) \<le> ?L * potential2 p ?b1 ?b2"
    using pos by (rule kinetic_restoring_le_potential)
  also have "\<dots> \<le> ?L * (?L * kinetic2 p ?b1 ?b2)"
    using potential_le_kinetic [OF pos] L0 by (rule mult_left_mono)
  also have "\<dots> \<le> ?L * (?L * (?L * potential2 p w1 w2))"
    using kinetic_restoring_le_potential [OF pos] L0 by (intro mult_left_mono)
  also have "\<dots> = ?L ^ 3 * potential2 p w1 w2"
    by (simp add: power3_eq_cube mult.assoc)
  finally show ?thesis .
qed

text \<open>
  One step on reals: the doubled energy does not grow, and it shrinks by at most the factor
  \<open>1 - (dt^2 * frequency_bound)^3 / 72\<close> and never below a quarter.
\<close>

lemma energy_step_real:
  fixes h X1 X2 V1 V2 :: real
  assumes pos: "0 < m1 p" "0 < m2 p" "0 < k1 p" "0 < k2 p"
    and stab: "h^2 * frequency_bound p \<le> 8"
  defines "bx1 \<equiv> restoring1 p X1 X2" and "bx2 \<equiv> restoring2 p X1 X2"
    and "bv1 \<equiv> restoring1 p V1 V2" and "bv2 \<equiv> restoring2 p V1 V2"
  defines "bbx1 \<equiv> restoring1 p bx1 bx2" and "bbx2 \<equiv> restoring2 p bx1 bx2"
    and "bbv1 \<equiv> restoring1 p bv1 bv2" and "bbv2 \<equiv> restoring2 p bv1 bv2"
  defines "nx1 \<equiv> (24 * X1 + 24 * h * V1 - 12 * h^2 * bx1 - 4 * h^3 * bv1 + h^4 * bbx1) / 24"
    and "nv1 \<equiv> (24 * V1 - 24 * h * bx1 - 12 * h^2 * bv1 + 4 * h^3 * bbx1 + h^4 * bbv1) / 24"
    and "nx2 \<equiv> (24 * X2 + 24 * h * V2 - 12 * h^2 * bx2 - 4 * h^3 * bv2 + h^4 * bbx2) / 24"
    and "nv2 \<equiv> (24 * V2 - 24 * h * bx2 - 12 * h^2 * bv2 + 4 * h^3 * bbx2 + h^4 * bbv2) / 24"
  shows "kinetic2 p nv1 nv2 + potential2 p nx1 nx2 \<le> kinetic2 p V1 V2 + potential2 p X1 X2"
    and "(1 - (h^2 * frequency_bound p) ^ 3 / 72) * (kinetic2 p V1 V2 + potential2 p X1 X2)
           \<le> kinetic2 p nv1 nv2 + potential2 p nx1 nx2"
    and "(kinetic2 p V1 V2 + potential2 p X1 X2) / 4
           \<le> kinetic2 p nv1 nv2 + potential2 p nx1 nx2"
proof -
  let ?L = "frequency_bound p"
  let ?F = "kinetic2 p V1 V2 + potential2 p X1 X2"
  let ?F' = "kinetic2 p nv1 nv2 + potential2 p nx1 nx2"
  define D where "D = 8 * potential2 p bv1 bv2 - h^2 * kinetic2 p bbv1 bbv2
                      + 8 * kinetic2 p bbx1 bbx2 - h^2 * potential2 p bbx1 bbx2"
  have L0: "0 \<le> ?L" using pos by (rule frequency_bound_nonneg)
  have h2: "0 \<le> h^2" by simp
  from params_poly [OF pos] obtain a c
    where B1: "\<And>w1 w2. restoring1 p w1 w2 = (a + c * m2 p) * w1 - c * m2 p * w2"
      and B2: "\<And>w1 w2. restoring2 p w1 w2 = c * m1 p * (w2 - w1)"
      and PM: "\<And>w1 w2. kinetic2 p w1 w2 = m1 p * w1 * w1 + m2 p * w2 * w2"
      and PK: "\<And>w1 w2. potential2 p w1 w2 =
           a * m1 p * w1 * w1 + c * m1 p * m2 p * (w2 - w1) * (w2 - w1)"
    by blast
  define NX1 where "NX1 = 24 * X1 + 24 * h * V1 - 12 * h^2 * bx1 - 4 * h^3 * bv1 + h^4 * bbx1"
  define NV1 where "NV1 = 24 * V1 - 24 * h * bx1 - 12 * h^2 * bv1 + 4 * h^3 * bbx1 + h^4 * bbv1"
  define NX2 where "NX2 = 24 * X2 + 24 * h * V2 - 12 * h^2 * bx2 - 4 * h^3 * bv2 + h^4 * bbx2"
  define NV2 where "NV2 = 24 * V2 - 24 * h * bx2 - 12 * h^2 * bv2 + 4 * h^3 * bbx2 + h^4 * bbv2"
  have N: "NX1 = 24 * nx1" "NV1 = 24 * nv1" "NX2 = 24 * nx2" "NV2 = 24 * nv2"
    by (simp_all add: NX1_def NV1_def NX2_def NV2_def nx1_def nv1_def nx2_def nv2_def)
  have "576 * ?F - (kinetic2 p NV1 NV2 + potential2 p NX1 NX2) = h^6 * D"
    unfolding D_def NX1_def NX2_def NV1_def NV2_def bbx1_def bbx2_def bbv1_def bbv2_def
      bx1_def bx2_def bv1_def bv2_def
    by (rule energy_identity_poly [where ?B1.0 = "restoring1 p" and ?B2.0 = "restoring2 p"
        and PM = "kinetic2 p" and PK = "potential2 p" and a = a and c = c
        and ?M1.0 = "m1 p" and ?M2.0 = "m2 p", OF B1 B2 PM PK])
  then have id: "576 * (?F - ?F') = h^6 * D"
    unfolding N by (simp add: kinetic2_scale potential2_scale)
  have PKbv: "0 \<le> potential2 p bv1 bv2" and PMbbx: "0 \<le> kinetic2 p bbx1 bbx2"
    and PMbbv: "0 \<le> kinetic2 p bbv1 bbv2" and PKbbx: "0 \<le> potential2 p bbx1 bbx2"
    and F0: "0 \<le> ?F"
    using pos by (simp_all add: kinetic2_nonneg potential2_nonneg)
  have "h^2 * kinetic2 p bbv1 bbv2 \<le> h^2 * (?L * potential2 p bv1 bv2)"
    unfolding bbv1_def bbv2_def
    using kinetic_restoring_le_potential [OF pos] h2 by (rule mult_left_mono)
  also have "\<dots> = (h^2 * ?L) * potential2 p bv1 bv2" by simp
  also have "\<dots> \<le> 8 * potential2 p bv1 bv2"
    using stab PKbv by (rule mult_right_mono)
  finally have lo1: "h^2 * kinetic2 p bbv1 bbv2 \<le> 8 * potential2 p bv1 bv2" .
  have "h^2 * potential2 p bbx1 bbx2 \<le> h^2 * (?L * kinetic2 p bbx1 bbx2)"
    using potential_le_kinetic [OF pos] h2 by (rule mult_left_mono)
  also have "\<dots> = (h^2 * ?L) * kinetic2 p bbx1 bbx2" by simp
  also have "\<dots> \<le> 8 * kinetic2 p bbx1 bbx2"
    using stab PMbbx by (rule mult_right_mono)
  finally have lo2: "h^2 * potential2 p bbx1 bbx2 \<le> 8 * kinetic2 p bbx1 bbx2" .
  have D0: "0 \<le> D" unfolding D_def using lo1 lo2 by linarith
  have h6: "0 \<le> h^6" by simp
  have "0 \<le> h^6 * D" using h6 D0 by (rule mult_nonneg_nonneg)
  then have "0 \<le> 576 * (?F - ?F')" unfolding id .
  then show "?F' \<le> ?F" by simp
  have up1: "potential2 p bv1 bv2 \<le> ?L ^ 3 * kinetic2 p V1 V2"
    unfolding bv1_def bv2_def using pos by (rule cube_bound_kinetic)
  have up2: "kinetic2 p bbx1 bbx2 \<le> ?L ^ 3 * potential2 p X1 X2"
    unfolding bbx1_def bbx2_def bx1_def bx2_def using pos by (rule cube_bound_potential)
  have "0 \<le> h^2 * kinetic2 p bbv1 bbv2" "0 \<le> h^2 * potential2 p bbx1 bbx2"
    using h2 PMbbv PKbbx by (simp_all add: mult_nonneg_nonneg)
  then have "D \<le> 8 * potential2 p bv1 bv2 + 8 * kinetic2 p bbx1 bbx2"
    unfolding D_def by linarith
  also have "\<dots> \<le> 8 * (?L ^ 3 * kinetic2 p V1 V2) + 8 * (?L ^ 3 * potential2 p X1 X2)"
    using up1 up2 by linarith
  also have "\<dots> = 8 * ?L ^ 3 * ?F" by (simp add: algebra_simps)
  finally have "D \<le> 8 * ?L ^ 3 * ?F" .
  then have "h^6 * D \<le> h^6 * (8 * ?L ^ 3 * ?F)"
    using h6 by (rule mult_left_mono)
  also have "\<dots> = 8 * ((h^2 * ?L) ^ 3 * ?F)"
    by (simp add: power_mult_distrib algebra_simps)
  finally have "h^6 * D \<le> 8 * ((h^2 * ?L) ^ 3 * ?F)" .
  then have "576 * (?F - ?F') \<le> 8 * ((h^2 * ?L) ^ 3 * ?F)"
    unfolding id .
  moreover define q where "q = (h^2 * ?L) ^ 3 * ?F"
  moreover have "(1 - (h^2 * ?L) ^ 3 / 72) * ?F = ?F - q / 72"
    unfolding q_def by (simp add: left_diff_distrib)
  ultimately show "(1 - (h^2 * ?L) ^ 3 / 72) * ?F \<le> ?F'"
    by simp
  define S where "S =
      kinetic2 p (h^2 * restoring1 p (h^2 * bv1 - 6 * V1) (h^2 * bv2 - 6 * V2))
                 (h^2 * restoring2 p (h^2 * bv1 - 6 * V1) (h^2 * bv2 - 6 * V2))
    + 4 * (h^2 * potential2 p (h^2 * bv1 - 6 * V1) (h^2 * bv2 - 6 * V2))
    + 12 * kinetic2 p (h^2 * bv1 - 6 * V1) (h^2 * bv2 - 6 * V2)
    + potential2 p (h^2 * restoring1 p (h^2 * bx1 - 6 * X1) (h^2 * bx2 - 6 * X2))
                   (h^2 * restoring2 p (h^2 * bx1 - 6 * X1) (h^2 * bx2 - 6 * X2))
    + 4 * (h^2 * kinetic2 p (restoring1 p (h^2 * bx1 - 6 * X1) (h^2 * bx2 - 6 * X2))
                            (restoring2 p (h^2 * bx1 - 6 * X1) (h^2 * bx2 - 6 * X2)))
    + 12 * potential2 p (h^2 * bx1 - 6 * X1) (h^2 * bx2 - 6 * X2)"
  have "432 * ?F - h^6 * D = S"
    unfolding D_def S_def bbx1_def bbx2_def bbv1_def bbv2_def bx1_def bx2_def bv1_def bv2_def
    by (rule quarter_poly [where ?B1.0 = "restoring1 p" and ?B2.0 = "restoring2 p"
        and PM = "kinetic2 p" and PK = "potential2 p" and a = a and c = c
        and ?M1.0 = "m1 p" and ?M2.0 = "m2 p", OF B1 B2 PM PK])
  moreover have "0 \<le> S"
    unfolding S_def using pos h2
    by (intro add_nonneg_nonneg mult_nonneg_nonneg kinetic2_nonneg potential2_nonneg) simp_all
  ultimately have "h^6 * D \<le> 432 * ?F" by simp
  then have "576 * (?F - ?F') \<le> 432 * ?F" unfolding id .
  then show "?F / 4 \<le> ?F'" by simp
qed


text \<open>The same for \<open>integrateRK4\<close> on finite states.\<close>

lemma energy_Fin:
  "energy p \<lparr>t = T, x1 = Fin X1, v1 = Fin V1, x2 = Fin X2, v2 = Fin V2\<rparr> =
     Fin ((kinetic2 p V1 V2 + potential2 p X1 X2) / 2)"
  by (simp add: energy_def kinetic2_def potential2_def algebra_simps)

lemma energy_step:
  assumes pos: "0 < m1 p" "0 < m2 p" "0 < k1 p" "0 < k2 p"
    and undamped: "b1 p = 0" "b2 p = 0" "forceAmplitude p = 0"
    and stab: "h^2 * frequency_bound p \<le> 8"
    and fin: "finiteState s"
  shows "\<exists>E E'. energy p s = Fin E \<and> energy p (integrateRK4 s h p) = Fin E'
           \<and> 0 \<le> E' \<and> E' \<le> E \<and> (1 - (h^2 * frequency_bound p) ^ 3 / 72) * E \<le> E'
           \<and> E / 4 \<le> E'"
proof -
  from fin obtain T X1 V1 X2 V2
    where s: "s = \<lparr>t = Fin T, x1 = Fin X1, v1 = Fin V1, x2 = Fin X2, v2 = Fin V2\<rparr>"
    by (rule finiteState_cases)
  have m: "m1 p \<noteq> 0" "m2 p \<noteq> 0" using pos by simp_all
  define F where "F = kinetic2 p V1 V2 + potential2 p X1 X2"
  obtain X1' V1' X2' V2'
    where step: "integrateRK4 s h p =
        \<lparr>t = Fin (T + h), x1 = Fin X1', v1 = Fin V1', x2 = Fin X2', v2 = Fin V2'\<rparr>"
      and le1: "kinetic2 p V1' V2' + potential2 p X1' X2' \<le> F"
      and le2: "(1 - (h^2 * frequency_bound p) ^ 3 / 72) * F
                  \<le> kinetic2 p V1' V2' + potential2 p X1' X2'"
      and le3: "F / 4 \<le> kinetic2 p V1' V2' + potential2 p X1' X2'"
    unfolding s F_def
    using rk4_undamped [OF undamped m, of T X1 V1 X2 V2 h]
      energy_step_real [OF pos stab, where ?X1.0 = X1 and ?V1.0 = V1 and ?X2.0 = X2
        and ?V2.0 = V2]
    by blast
  define F' where "F' = kinetic2 p V1' V2' + potential2 p X1' X2'"
  have F'0: "0 \<le> F'"
    unfolding F'_def using pos by (simp add: kinetic2_nonneg potential2_nonneg)
  have "energy p s = Fin (F / 2)"
    unfolding s F_def by (rule energy_Fin)
  moreover have "energy p (integrateRK4 s h p) = Fin (F' / 2)"
    unfolding step F'_def by (rule energy_Fin)
  moreover have "0 \<le> F' / 2" using F'0 by simp
  moreover have "F' / 2 \<le> F / 2" using le1 unfolding F'_def by simp
  moreover have "(1 - (h^2 * frequency_bound p) ^ 3 / 72) * (F / 2) \<le> F' / 2"
    using le2 unfolding F'_def by simp
  moreover have "F / 2 / 4 \<le> F' / 2"
    using le3 unfolding F'_def by simp
  ultimately show ?thesis by blast
qed

lemma energy_nonneg:
  assumes "0 < m1 p" "0 < m2 p" "0 < k1 p" "0 < k2 p" "finiteState s"
  shows "\<exists>E. energy p s = Fin E \<and> 0 \<le> E"
proof -
  from assms(5) obtain T X1 V1 X2 V2
    where s: "s = \<lparr>t = Fin T, x1 = Fin X1, v1 = Fin V1, x2 = Fin X2, v2 = Fin V2\<rparr>"
    by (rule finiteState_cases)
  have "0 \<le> (kinetic2 p V1 V2 + potential2 p X1 X2) / 2"
    using assms(1-4) by (simp add: kinetic2_nonneg potential2_nonneg)
  then show ?thesis unfolding s energy_Fin by blast
qed

text \<open>
  Claim C9 says that with \<open>b1 = b2 = 0\<close>, \<open>forceAmplitude = 0\<close> and positive masses and
  stiffnesses the total mechanical energy of the states produced by repeated steps stays
  within a bounded tolerance of its initial value, the change per step being a small
  truncation error that does not accumulate. Counterexample: with \<open>m1 = m2 = 1\<close>, \<open>k1 = 3\<close>,
  \<open>k2 = 2\<close> and \<open>dt = 2\<close>, from \<open>x1 = 2\<close>, \<open>x2 = -1\<close> at rest, the energy is \<open>15\<close> at the
  start, \<open>5775\<close> after one step and \<open>2223375\<close> after two: it grows by the factor \<open>385\<close> in
  every step.
\<close>

theorem energy_growth_counterexample:
  "energy \<lparr>m1 = 1, k1 = 3, b1 = 0, m2 = 1, k2 = 2, b2 = 0, forceAmplitude = 0, forceFrequency = 1\<rparr>
     \<lparr>t = Fin 0, x1 = Fin 2, v1 = Fin 0, x2 = Fin (- 1), v2 = Fin 0\<rparr> = Fin 15
   \<and> integrateRK4 \<lparr>t = Fin 0, x1 = Fin 2, v1 = Fin 0, x2 = Fin (- 1), v2 = Fin 0\<rparr> 2
       \<lparr>m1 = 1, k1 = 3, b1 = 0, m2 = 1, k2 = 2, b2 = 0, forceAmplitude = 0, forceFrequency = 1\<rparr>
     = \<lparr>t = Fin 2, x1 = Fin 26, v1 = Fin 72, x2 = Fin (- 13), v2 = Fin (- 36)\<rparr>
   \<and> energy \<lparr>m1 = 1, k1 = 3, b1 = 0, m2 = 1, k2 = 2, b2 = 0, forceAmplitude = 0, forceFrequency = 1\<rparr>
       (run (Suc 0) \<lparr>t = Fin 0, x1 = Fin 2, v1 = Fin 0, x2 = Fin (- 1), v2 = Fin 0\<rparr> 2
          \<lparr>m1 = 1, k1 = 3, b1 = 0, m2 = 1, k2 = 2, b2 = 0, forceAmplitude = 0, forceFrequency = 1\<rparr>)
     = Fin 5775
   \<and> energy \<lparr>m1 = 1, k1 = 3, b1 = 0, m2 = 1, k2 = 2, b2 = 0, forceAmplitude = 0, forceFrequency = 1\<rparr>
       (run (Suc (Suc 0)) \<lparr>t = Fin 0, x1 = Fin 2, v1 = Fin 0, x2 = Fin (- 1), v2 = Fin 0\<rparr> 2
          \<lparr>m1 = 1, k1 = 3, b1 = 0, m2 = 1, k2 = 2, b2 = 0, forceAmplitude = 0, forceFrequency = 1\<rparr>)
     = Fin 2223375"
  by (simp add: energy_def integrateRK4_def engine_defs Let_def)

text \<open>
  Claim C9 as amended, in exact arithmetic (the rounding of doubles, which perturbs the
  energy of every step by a relative amount of the order of \<open>1e-16\<close>, is not covered):
  with \<open>b1 = b2 = 0\<close>, \<open>forceAmplitude = 0\<close>, positive masses and stiffnesses and a time
  step with \<open>dt^2 * ((k1 + k2)/m1 + k2/m2) \<le> 8\<close>, the energy of the state after \<open>n\<close> steps
  from a finite state never exceeds the initial energy \<open>E0\<close>, and with
  \<open>e = (dt^2 * ((k1 + k2)/m1 + k2/m2))^3 / 72\<close> it is at least \<open>max (1/4) (1 - e) ^ n * E0\<close>
  and at least \<open>E0 - n * e * E0\<close>: a step never gains energy and loses at most the
  fraction \<open>e\<close> of it, which is of order \<open>dt^6\<close>, and never more than three quarters.
\<close>

theorem energy_bounded:
  assumes pos: "0 < m1 params" "0 < m2 params" "0 < k1 params" "0 < k2 params"
    and undamped: "b1 params = 0" "b2 params = 0" "forceAmplitude params = 0"
    and stab: "dt^2 * frequency_bound params \<le> 8"
    and fin: "finiteState s"
  shows "\<exists>E0 En. energy params s = Fin E0 \<and> energy params (run n s dt params) = Fin En
           \<and> 0 \<le> En \<and> En \<le> E0
           \<and> max (1 / 4) (1 - (dt^2 * frequency_bound params) ^ 3 / 72) ^ n * E0 \<le> En
           \<and> E0 - real n * ((dt^2 * frequency_bound params) ^ 3 / 72) * E0 \<le> En"
  using fin
proof (induction n arbitrary: s)
  case 0
  from energy_nonneg [OF pos 0] obtain E where "energy params s = Fin E" "0 \<le> E"
    by blast
  then show ?case by simp
next
  case (Suc n)
  define e where "e = (dt^2 * frequency_bound params) ^ 3 / 72"
  define r where "r = max (1 / 4) (1 - e)"
  let ?s1 = "integrateRK4 s dt params"
  have e0: "0 \<le> e"
    unfolding e_def using frequency_bound_nonneg [OF pos] by simp
  have r0: "0 \<le> r" unfolding r_def by simp
  from energy_step [OF pos undamped stab Suc.prems] obtain E E1
    where E: "energy params s = Fin E" and E1: "energy params ?s1 = Fin E1"
      and b: "0 \<le> E1" "E1 \<le> E" "(1 - e) * E \<le> E1" "E / 4 \<le> E1"
    unfolding e_def by blast
  have "finiteState ?s1"
    using Suc.prems pos by (intro integrateRK4_finite) simp_all
  from Suc.IH [OF this] E1 obtain En
    where En: "energy params (run n ?s1 dt params) = Fin En"
      and c: "0 \<le> En" "En \<le> E1" "r ^ n * E1 \<le> En" "E1 - real n * e * E1 \<le> En"
    unfolding e_def r_def by auto
  have "0 \<le> real n * e" using e0 by simp
  then have d: "real n * e * E1 \<le> real n * e * E"
    using b(2) by (rule mult_left_mono [rotated])
  have f: "(1 - e) * E = E - e * E" by (simp add: left_diff_distrib)
  have g: "real (Suc n) * e * E = real n * e * E + e * E"
    by (simp add: distrib_right)
  have lin: "E - real (Suc n) * e * E \<le> En"
    using b(3) c(4) d unfolding f g by linarith
  have "r * E \<le> E1"
  proof (cases "1 / 4 \<le> 1 - e")
    case True
    then have "r = 1 - e" unfolding r_def by simp
    with b(3) show ?thesis by simp
  next
    case False
    then have "r = 1 / 4" unfolding r_def by simp
    then have "r * E = E / 4" by simp
    then show ?thesis using b(4) by (simp only:)
  qed
  then have "r ^ n * (r * E) \<le> r ^ n * E1"
    using r0 by (intro mult_left_mono) simp_all
  then have geo: "r ^ Suc n * E \<le> En"
    using c(3) by (simp add: mult.assoc mult.commute mult.left_commute)
  from E En b c lin geo show ?case
    unfolding e_def r_def by auto
qed

text \<open>
  Claim C9, witness: the default masses and stiffnesses without damping and drive, the
  application's time step, body 1 displaced by one unit: after 1000 steps the energy is
  between \<open>1099.99\<close> and its initial value \<open>1100\<close>.
\<close>

theorem energy_bounded_witness:
  "0 < m1 (DEFAULT_PARAMS\<lparr>b1 := 0, b2 := 0, forceAmplitude := 0\<rparr>)
   \<and> 0 < m2 (DEFAULT_PARAMS\<lparr>b1 := 0, b2 := 0, forceAmplitude := 0\<rparr>)
   \<and> 0 < k1 (DEFAULT_PARAMS\<lparr>b1 := 0, b2 := 0, forceAmplitude := 0\<rparr>)
   \<and> 0 < k2 (DEFAULT_PARAMS\<lparr>b1 := 0, b2 := 0, forceAmplitude := 0\<rparr>)
   \<and> PHYSICS_DT^2 * frequency_bound (DEFAULT_PARAMS\<lparr>b1 := 0, b2 := 0, forceAmplitude := 0\<rparr>) \<le> 8
   \<and> finiteState \<lparr>t = Fin 0, x1 = Fin 1, v1 = Fin 0, x2 = Fin 0, v2 = Fin 0\<rparr>
   \<and> energy (DEFAULT_PARAMS\<lparr>b1 := 0, b2 := 0, forceAmplitude := 0\<rparr>)
         \<lparr>t = Fin 0, x1 = Fin 1, v1 = Fin 0, x2 = Fin 0, v2 = Fin 0\<rparr> = Fin 1100
   \<and> (\<exists>En. energy (DEFAULT_PARAMS\<lparr>b1 := 0, b2 := 0, forceAmplitude := 0\<rparr>)
               (run 1000 \<lparr>t = Fin 0, x1 = Fin 1, v1 = Fin 0, x2 = Fin 0, v2 = Fin 0\<rparr> PHYSICS_DT
                  (DEFAULT_PARAMS\<lparr>b1 := 0, b2 := 0, forceAmplitude := 0\<rparr>)) = Fin En
             \<and> En \<le> 1100 \<and> 1099.99 \<le> En)"
proof -
  let ?P = "DEFAULT_PARAMS\<lparr>b1 := 0, b2 := 0, forceAmplitude := 0\<rparr>"
  let ?S = "\<lparr>t = Fin 0, x1 = Fin 1, v1 = Fin 0, x2 = Fin 0, v2 = Fin 0\<rparr>"
  have P: "0 < m1 ?P" "0 < m2 ?P" "0 < k1 ?P" "0 < k2 ?P"
    "b1 ?P = 0" "b2 ?P = 0" "forceAmplitude ?P = 0"
    by (simp_all add: DEFAULT_PARAMS_def)
  have L: "frequency_bound ?P = 84"
    by (simp add: frequency_bound_def DEFAULT_PARAMS_def)
  have stab: "PHYSICS_DT^2 * frequency_bound ?P \<le> 8"
    unfolding L by (simp add: PHYSICS_DT_def power2_eq_square)
  have fin: "finiteState ?S" by (simp add: finiteState_def)
  have E0: "energy ?P ?S = Fin 1100"
    by (simp add: energy_def DEFAULT_PARAMS_def)
  from energy_bounded [OF P stab fin, of 1000] obtain En
    where En: "energy ?P (run 1000 ?S PHYSICS_DT ?P) = Fin En"
      and le: "En \<le> 1100"
      and ge: "1100 - real 1000 * ((PHYSICS_DT^2 * frequency_bound ?P) ^ 3 / 72) * 1100 \<le> En"
    unfolding E0 by auto
  have "(1099.99::real) \<le> 1100 - real 1000 * ((PHYSICS_DT^2 * frequency_bound ?P) ^ 3 / 72) * 1100"
    unfolding L by (simp add: PHYSICS_DT_def power2_eq_square power3_eq_cube)
  with ge have "1099.99 \<le> En" by linarith
  with P stab fin E0 En le show ?thesis by blast
qed

end
